theory Spec2Isabelle
  imports Main "HOL-Library.Multiset" "HOL-Library.Sublist"
begin

section \<open>JavaScript values and errors\<close>

text \<open>
  The fields of the JSON objects that \<^verbatim>\<open>server.js\<close> reads are JavaScript values. The
  operator \<^verbatim>\<open>a || b\<close> returns \<open>a\<close> when \<open>a\<close> is truthy and \<open>b\<close> otherwise; the falsy
  values are \<^verbatim>\<open>undefined\<close>, \<^verbatim>\<open>null\<close>, \<^verbatim>\<open>false\<close>, \<^verbatim>\<open>0\<close> and the empty string.
\<close>

datatype jsval = Undefined | Null | Bool bool | Num int | Str string

fun truthy :: "jsval \<Rightarrow> bool" where
  "truthy Undefined = False"
| "truthy Null = False"
| "truthy (Bool b) = b"
| "truthy (Num n) = (n \<noteq> 0)"
| "truthy (Str s) = (s \<noteq> [])"

definition js_or :: "jsval \<Rightarrow> jsval \<Rightarrow> jsval" where
  "js_or a b = (if truthy a then a else b)"

text \<open>A field is absent when the JSON object has \<^verbatim>\<open>null\<close> for it or does not have it.\<close>

definition absent :: "jsval \<Rightarrow> bool" where
  "absent v = (v = Null \<or> v = Undefined)"

text \<open>A thrown \<^verbatim>\<open>Error\<close> object; the handlers only read its \<^verbatim>\<open>message\<close>.\<close>

datatype error = Error (message: string)

text \<open>Decimal rendering of a number inside a template literal.\<close>

definition digit_char :: "nat \<Rightarrow> char" where
  "digit_char d = char_of (48 + d)"

function string_of_nat :: "nat \<Rightarrow> string" where
  "string_of_nat n =
     (if n < 10 then [digit_char n] else string_of_nat (n div 10) @ [digit_char (n mod 10)])"
  by pat_completeness auto
termination
  by (relation "measure id") auto

text \<open>
  What a request does to the outside world, in order: the calls of \<^verbatim>\<open>fetch\<close> with
  their URL, \<open>BrowserLaunched\<close> when \<^verbatim>\<open>puppeteer.launch\<close> has returned a browser, the
  calls on its page, and \<open>BrowserClose\<close> for the call of \<^verbatim>\<open>browser.close()\<close>.
\<close>

datatype event =
    Fetch string
  | BrowserLaunched
  | NewPage
  | SetContent
  | EmulateMediaType
  | Pdf
  | BrowserClose

section \<open>Arrays\<close>

text \<open>
  \<^verbatim>\<open>Array.prototype.sort(comparefn)\<close>: since ECMAScript 2019 the sort is stable, and for a
  consistent comparator its result is determined: the elements in ascending order of
  the comparator, equal elements in their original order. Stable insertion computes it:
  an element goes in front of the first element it does not compare greater than.
\<close>

fun sort_insert :: "('a \<Rightarrow> 'a \<Rightarrow> int) \<Rightarrow> 'a \<Rightarrow> 'a list \<Rightarrow> 'a list" where
  "sort_insert comparefn x [] = [x]"
| "sort_insert comparefn x (y # ys) =
     (if comparefn x y \<le> 0 then x # y # ys else y # sort_insert comparefn x ys)"

definition array_sort :: "('a \<Rightarrow> 'a \<Rightarrow> int) \<Rightarrow> 'a list \<Rightarrow> 'a list" where
  "array_sort comparefn xs = foldr (sort_insert comparefn) xs []"

text \<open>\<^verbatim>\<open>Array.prototype.slice(begin, end)\<close> for indices that are not negative.\<close>

definition slice :: "nat \<Rightarrow> nat \<Rightarrow> 'a list \<Rightarrow> 'a list" where
  "slice b e xs = take (e - b) (drop b xs)"

section \<open>The data of one request\<close>

text \<open>
  The user object and the repository objects of the GitHub API, with the fields that
  \<^verbatim>\<open>buildTemplateData\<close> reads (prefixed \<open>u_\<close> and \<open>r_\<close>; the view model keeps the names
  of the source). The star count is a number; the other fields are passed on or tested
  for truthiness only.
\<close>

record userData =
  u_login :: jsval
  u_name :: jsval
  u_avatar_url :: jsval
  u_bio :: jsval
  u_company :: jsval
  u_location :: jsval
  u_email :: jsval
  u_blog :: jsval
  u_followers :: jsval
  u_following :: jsval
  u_public_repos :: jsval
  u_created_at :: jsval
  u_html_url :: jsval

record repoData =
  r_name :: jsval
  r_description :: jsval
  r_stargazers_count :: int
  r_forks_count :: jsval
  r_language :: jsval
  r_html_url :: jsval

record readmeMeta =
  content :: jsval

record user_view =
  login :: jsval
  name :: jsval
  avatar :: jsval
  bio :: jsval
  company :: jsval
  location :: jsval
  email :: jsval
  blog :: jsval
  followers :: jsval
  following :: jsval
  publicRepos :: jsval
  createdAt :: string
  profileUrl :: jsval

record repo_view =
  repo_name :: jsval
  repo_description :: jsval
  stars :: int
  forks :: jsval
  repo_language :: jsval
  repo_url :: jsval

record templateData =
  user :: user_view
  repos :: "repo_view list"
  readmeHtml :: string
  generatedAt :: string

section \<open>The outside world\<close>

text \<open>
  A response of \<^verbatim>\<open>fetch\<close>: its status and what \<^verbatim>\<open>response.json()\<close> gives, which may
  throw. \<^verbatim>\<open>response.ok\<close> is true for the statuses 200 to 299.
\<close>

record 'b response =
  status :: nat
  json :: "error + 'b"

definition ok :: "'b response \<Rightarrow> bool" where
  "ok r = (200 \<le> status r \<and> status r \<le> 299)"

type_synonym headers = "(string \<times> string) list"

type_synonym buffer = "nat list"

text \<open>The options object handed to \<^verbatim>\<open>sanitizeHtml\<close>.\<close>

datatype transform = simpleTransform string headers bool

record sanitize_options =
  allowedTags :: "string list"
  allowedAttributes :: "(string \<times> string list) list"
  transformTags :: "(string \<times> transform) list"

text \<open>
  Everything \<^verbatim>\<open>server.js\<close> calls and does not define: the network (one view of
  \<^verbatim>\<open>fetch\<close> for each shape of response body the code reads), the libraries
  (\<^verbatim>\<open>Buffer\<close>, \<^verbatim>\<open>marked\<close>, \<^verbatim>\<open>sanitize-html\<close>, \<^verbatim>\<open>ejs\<close>, \<^verbatim>\<open>Date\<close>), the headless
  browser, and the configuration read from the process environment. Each call that
  can throw returns a sum, \<open>Inl\<close> the error thrown.
\<close>

record env =
  GITHUB_TOKEN :: string
  fetch_user :: "string \<Rightarrow> headers \<Rightarrow> error + userData response"
  fetch_repos :: "string \<Rightarrow> headers \<Rightarrow> error + repoData list response"
  fetch_readme :: "string \<Rightarrow> headers \<Rightarrow> error + readmeMeta response"
  base64_utf8 :: "jsval \<Rightarrow> error + string"
  marked_parse :: "string \<Rightarrow> error + string"
  defaults_allowedTags :: "string list"
  sanitizeHtml :: "string \<Rightarrow> sanitize_options \<Rightarrow> error + string"
  toLocaleDateString :: "jsval \<Rightarrow> string"
  today :: string
  renderFile :: "templateData \<Rightarrow> bool \<Rightarrow> error + string"
  import_puppeteer :: "error + unit"
  launch :: "error + unit"
  newPage :: "error + unit"
  setContent :: "string \<Rightarrow> error + unit"
  emulateMediaType :: "error + unit"
  pdf :: "string \<Rightarrow> error + buffer"
  valid_header_value :: "string \<Rightarrow> bool"
  close :: "error + unit"

section \<open>Fetching\<close>

definition request_headers :: "env \<Rightarrow> headers" where
  "request_headers env =
     [(''User-Agent'', ''GitHub-to-PDF-App''), (''Accept'', ''application/vnd.github.v3+json'')]
     @ (if GITHUB_TOKEN env \<noteq> [] then [(''Authorization'', ''token '' @ GITHUB_TOKEN env)] else [])"

text \<open>\<^verbatim>\<open>fetchGitHubData(url)\<close>, with the view of \<^verbatim>\<open>fetch\<close> that its caller reads.\<close>

definition fetchGitHubData ::
  "env \<Rightarrow> (string \<Rightarrow> headers \<Rightarrow> error + 'b response) \<Rightarrow> string \<Rightarrow> event list \<times> (error + 'b)" where
  "fetchGitHubData env fetch url =
     ([Fetch url],
      (case fetch url (request_headers env) of
         Inl e \<Rightarrow> Inl e
       | Inr response \<Rightarrow>
           if \<not> ok response then
             (if status response = 404 then Inl (Error ''User not found'')
              else Inl (Error (''GitHub API error: '' @ string_of_nat (status response))))
           else json response))"

definition readmeMetaUrl :: "string \<Rightarrow> string" where
  "readmeMetaUrl username = ''https://api.github.com/repos/'' @ username @ ''/'' @ username @ ''/readme''"

definition readme_options :: "env \<Rightarrow> sanitize_options" where
  "readme_options env =
     \<lparr> allowedTags = defaults_allowedTags env @ [''img'', ''h1'', ''h2'', ''h3'', ''details'', ''summary''],
       allowedAttributes =
         [(''a'', [''href'', ''name'', ''target'', ''rel'']),
          (''img'', [''src'', ''alt'', ''title'', ''width'', ''height'']),
          (''*'', [''id'', ''class''])],
       transformTags =
         [(''a'', simpleTransform ''a'' [(''rel'', ''noopener noreferrer''), (''target'', ''_blank'')] True)] \<rparr>"

text \<open>The body of the \<^verbatim>\<open>try\<close> block of \<^verbatim>\<open>fetchUserReadmeHtml\<close>.\<close>

definition readme_try :: "env \<Rightarrow> string \<Rightarrow> event list \<times> (error + string)" where
  "readme_try env username =
     ([Fetch (readmeMetaUrl username)],
      (case fetch_readme env (readmeMetaUrl username) (request_headers env) of
         Inl e \<Rightarrow> Inl e
       | Inr res \<Rightarrow>
           if \<not> ok res then Inr ''''
           else
             (case json res of
                Inl e \<Rightarrow> Inl e
              | Inr meta \<Rightarrow>
                  if \<not> truthy (content meta) then Inr ''''
                  else
                    (case base64_utf8 env (content meta) of
                       Inl e \<Rightarrow> Inl e
                     | Inr markdown \<Rightarrow>
                         (case marked_parse env markdown of
                            Inl e \<Rightarrow> Inl e
                          | Inr rawHtml \<Rightarrow>
                              (case sanitizeHtml env rawHtml (readme_options env) of
                                 Inl e \<Rightarrow> Inl e
                               | Inr safeHtml \<Rightarrow> Inr safeHtml))))))"

text \<open>\<^verbatim>\<open>fetchUserReadmeHtml(username)\<close>: the \<^verbatim>\<open>try\<close> block and its \<^verbatim>\<open>catch (_)\<close>.\<close>

definition fetchUserReadmeHtml :: "env \<Rightarrow> string \<Rightarrow> event list \<times> (error + string)" where
  "fetchUserReadmeHtml env username =
     (case readme_try env username of
        (evs, Inl _) \<Rightarrow> (evs, Inr '''')
      | (evs, Inr html) \<Rightarrow> (evs, Inr html))"

section \<open>The view model\<close>

definition userUrl :: "string \<Rightarrow> string" where
  "userUrl username = ''https://api.github.com/users/'' @ username"

definition reposUrl :: "string \<Rightarrow> string" where
  "reposUrl username = ''https://api.github.com/users/'' @ username @ ''/repos?per_page=100&sort=stars''"

text \<open>The comparator and the mapping of step 3, and the list \<^verbatim>\<open>topRepos\<close>.\<close>

definition by_stars :: "repoData \<Rightarrow> repoData \<Rightarrow> int" where
  "by_stars a b = r_stargazers_count b - r_stargazers_count a"

definition repo_summary :: "repoData \<Rightarrow> repo_view" where
  "repo_summary repo =
     \<lparr> repo_name = r_name repo,
       repo_description = js_or (r_description repo) (Str ''No description''),
       stars = r_stargazers_count repo,
       forks = r_forks_count repo,
       repo_language = js_or (r_language repo) (Str ''N/A''),
       repo_url = r_html_url repo \<rparr>"

definition topRepos :: "repoData list \<Rightarrow> repo_view list" where
  "topRepos reposData = map repo_summary (slice 0 10 (array_sort by_stars reposData))"

text \<open>The object that \<^verbatim>\<open>buildTemplateData\<close> returns in step 5.\<close>

definition template_record :: "env \<Rightarrow> userData \<Rightarrow> repo_view list \<Rightarrow> string \<Rightarrow> templateData" where
  "template_record env ud topRepos_list html =
     \<lparr> user =
         \<lparr> login = u_login ud,
           name = js_or (u_name ud) (u_login ud),
           avatar = u_avatar_url ud,
           bio = js_or (u_bio ud) (Str ''No bio available''),
           company = js_or (u_company ud) (Str ''''),
           location = js_or (u_location ud) (Str ''''),
           email = js_or (u_email ud) (Str ''''),
           blog = js_or (u_blog ud) (Str ''''),
           followers = u_followers ud,
           following = u_following ud,
           publicRepos = u_public_repos ud,
           createdAt = toLocaleDateString env (u_created_at ud),
           profileUrl = u_html_url ud \<rparr>,
       repos = topRepos_list,
       readmeHtml = html,
       generatedAt = today env \<rparr>"

text \<open>
  \<^verbatim>\<open>buildTemplateData(username)\<close>: each \<^verbatim>\<open>await\<close> either gives its value or throws, and
  a throw ends the function with that error.
\<close>

definition buildTemplateData :: "env \<Rightarrow> string \<Rightarrow> event list \<times> (error + templateData)" where
  "buildTemplateData env username =
     (case fetchGitHubData env (fetch_user env) (userUrl username) of
        (evs1, Inl e) \<Rightarrow> (evs1, Inl e)
      | (evs1, Inr ud) \<Rightarrow>
          (case fetchGitHubData env (fetch_repos env) (reposUrl username) of
             (evs2, Inl e) \<Rightarrow> (evs1 @ evs2, Inl e)
           | (evs2, Inr reposData) \<Rightarrow>
               (case fetchUserReadmeHtml env username of
                  (evs3, Inl e) \<Rightarrow> (evs1 @ evs2 @ evs3, Inl e)
                | (evs3, Inr html) \<Rightarrow>
                    (evs1 @ evs2 @ evs3,
                     Inr (template_record env ud (topRepos reposData) html)))))"

section \<open>The response object\<close>

text \<open>
  The response as the client receives it. Once it is finished, a later
  \<^verbatim>\<open>res.status(...).send(...)\<close> changes nothing for the client (Express throws
  \<^verbatim>\<open>ERR_HTTP_HEADERS_SENT\<close> there, inside the handler's \<^verbatim>\<open>catch\<close> block).
\<close>

datatype payload = NoBody | Text string | Bytes buffer

record http_res =
  statusCode :: nat
  res_headers :: headers
  body :: payload
  finished :: bool

definition new_res :: http_res where
  "new_res = \<lparr> statusCode = 200, res_headers = [], body = NoBody, finished = False \<rparr>"

definition res_status :: "nat \<Rightarrow> http_res \<Rightarrow> http_res" where
  "res_status code res = (if finished res then res else res\<lparr>statusCode := code\<rparr>)"

definition send :: "string \<Rightarrow> http_res \<Rightarrow> http_res" where
  "send text res = (if finished res then res else res\<lparr>body := Text text, finished := True\<rparr>)"

definition res_end :: "buffer \<Rightarrow> http_res \<Rightarrow> http_res" where
  "res_end data res = (if finished res then res else res\<lparr>body := Bytes data, finished := True\<rparr>)"

text \<open>\<^verbatim>\<open>res.setHeader(name, value)\<close> throws on a value with a character no header may hold.\<close>

definition setHeader :: "env \<Rightarrow> string \<Rightarrow> string \<Rightarrow> http_res \<Rightarrow> error + http_res" where
  "setHeader env field v res =
     (if valid_header_value env v then Inr (res\<lparr>res_headers := res_headers res @ [(field, v)]\<rparr>)
      else Inl (Error ''Invalid character in header content''))"

definition not_found_text :: "string \<Rightarrow> string" where
  "not_found_text username = ''GitHub user '' @ [CHR 0x22] @ username @ [CHR 0x22] @ '' not found''"

section \<open>The route \<^verbatim>\<open>/preview\<close>\<close>

text \<open>
  The query parameter is absent (\<open>None\<close>) or a string; \<^verbatim>\<open>!username\<close> holds when it is
  absent or empty.
\<close>

definition preview_catch :: "string \<Rightarrow> error \<Rightarrow> http_res \<Rightarrow> http_res" where
  "preview_catch username error res =
     (if message error = ''User not found'' then send (not_found_text username) (res_status 404 res)
      else send (''Error generating preview: '' @ message error) (res_status 500 res))"

definition preview_handler :: "env \<Rightarrow> string option \<Rightarrow> event list \<times> http_res" where
  "preview_handler env query_username =
     (case query_username of
        None \<Rightarrow> ([], send ''Username parameter is required'' (res_status 400 new_res))
      | Some username \<Rightarrow>
          if username = [] then ([], send ''Username parameter is required'' (res_status 400 new_res))
          else
            (case buildTemplateData env username of
               (evs, Inl error) \<Rightarrow> (evs, preview_catch username error new_res)
             | (evs, Inr templateData) \<Rightarrow>
                 (case renderFile env templateData True of
                    Inl error \<Rightarrow> (evs, preview_catch username error new_res)
                  | Inr html \<Rightarrow> (evs, send html new_res))))"

section \<open>The route \<^verbatim>\<open>/pdf\<close>\<close>

text \<open>\<^verbatim>\<open>getPuppeteer()\<close> with the module cache as a flag, passed in and returned.\<close>

definition getPuppeteer :: "env \<Rightarrow> bool \<Rightarrow> bool \<times> (error + unit)" where
  "getPuppeteer env cachedPuppeteer =
     (if cachedPuppeteer then (True, Inr ())
      else
        (case import_puppeteer env of
           Inl e \<Rightarrow> (False, Inl e)
         | Inr _ \<Rightarrow> (True, Inr ())))"

text \<open>
  Step 8 of the inner \<^verbatim>\<open>try\<close> block: the three headers and the body. It returns the
  response so far and whether it threw.
\<close>

definition send_pdf :: "env \<Rightarrow> string \<Rightarrow> buffer \<Rightarrow> http_res \<Rightarrow> http_res \<times> (error + unit)" where
  "send_pdf env username pdfBuffer res =
     (case setHeader env ''Content-Type'' ''application/pdf'' res of
        Inl e \<Rightarrow> (res, Inl e)
      | Inr res1 \<Rightarrow>
     (case setHeader env ''Content-Disposition''
             (''attachment; filename='' @ [CHR 0x22] @ username @ ''-github-resume.pdf'' @ [CHR 0x22]) res1 of
        Inl e \<Rightarrow> (res1, Inl e)
      | Inr res2 \<Rightarrow>
     (case setHeader env ''Content-Length'' (string_of_nat (length pdfBuffer)) res2 of
        Inl e \<Rightarrow> (res2, Inl e)
      | Inr res3 \<Rightarrow> (res_end pdfBuffer res3, Inr ()))))"

text \<open>
  The inner \<^verbatim>\<open>try\<close> block, steps 6 to 8: the calls on the page, then the response. It
  returns the events, the response so far and whether it threw.
\<close>

definition export_try ::
  "env \<Rightarrow> string \<Rightarrow> string \<Rightarrow> http_res \<Rightarrow> event list \<times> http_res \<times> (error + unit)" where
  "export_try env username html res =
     (case newPage env of
        Inl e \<Rightarrow> ([NewPage], res, Inl e)
      | Inr _ \<Rightarrow>
     (case setContent env html of
        Inl e \<Rightarrow> ([NewPage, SetContent], res, Inl e)
      | Inr _ \<Rightarrow>
     (case emulateMediaType env of
        Inl e \<Rightarrow> ([NewPage, SetContent, EmulateMediaType], res, Inl e)
      | Inr _ \<Rightarrow>
     (case pdf env html of
        Inl e \<Rightarrow> ([NewPage, SetContent, EmulateMediaType, Pdf], res, Inl e)
      | Inr pdfBuffer \<Rightarrow>
          ([NewPage, SetContent, EmulateMediaType, Pdf], send_pdf env username pdfBuffer res)))))"

definition pdf_catch :: "string \<Rightarrow> error \<Rightarrow> http_res \<Rightarrow> http_res" where
  "pdf_catch username error res =
     (if message error = ''User not found'' then send (not_found_text username) (res_status 404 res)
      else send (''Error generating PDF: '' @ message error) (res_status 500 res))"

text \<open>
  The handler. The \<^verbatim>\<open>finally\<close> block runs after the inner \<^verbatim>\<open>try\<close> however it ended; an
  error thrown by \<^verbatim>\<open>browser.close()\<close> replaces the one of the \<^verbatim>\<open>try\<close> block. The outer
  \<^verbatim>\<open>catch\<close> receives whichever error left the outer \<^verbatim>\<open>try\<close>.
\<close>

definition pdf_handler :: "env \<Rightarrow> bool \<Rightarrow> string option \<Rightarrow> bool \<times> event list \<times> http_res" where
  "pdf_handler env cachedPuppeteer query_username =
     (case query_username of
        None \<Rightarrow> (cachedPuppeteer, [], send ''Username parameter is required'' (res_status 400 new_res))
      | Some username \<Rightarrow>
          if username = [] then
            (cachedPuppeteer, [], send ''Username parameter is required'' (res_status 400 new_res))
          else
            (case buildTemplateData env username of
               (evs, Inl error) \<Rightarrow> (cachedPuppeteer, evs, pdf_catch username error new_res)
             | (evs, Inr templateData) \<Rightarrow>
                 (case renderFile env templateData False of
                    Inl error \<Rightarrow> (cachedPuppeteer, evs, pdf_catch username error new_res)
                  | Inr html \<Rightarrow>
                      (case getPuppeteer env cachedPuppeteer of
                         (cached, Inl error) \<Rightarrow> (cached, evs, pdf_catch username error new_res)
                       | (cached, Inr _) \<Rightarrow>
                           (case launch env of
                              Inl error \<Rightarrow> (cached, evs, pdf_catch username error new_res)
                            | Inr _ \<Rightarrow>
                                (case export_try env username html new_res of
                                   (evs', res, r) \<Rightarrow>
                                     (case close env of
                                        Inl error \<Rightarrow>
                                          (cached, evs @ [BrowserLaunched] @ evs' @ [BrowserClose],
                                           pdf_catch username error res)
                                      | Inr _ \<Rightarrow>
                                          (case r of
                                             Inl error \<Rightarrow>
                                               (cached, evs @ [BrowserLaunched] @ evs' @ [BrowserClose],
                                                pdf_catch username error res)
                                           | Inr _ \<Rightarrow>
                                               (cached, evs @ [BrowserLaunched] @ evs' @ [BrowserClose],
                                                res)))))))))"

section \<open>Sample worlds\<close>

text \<open>
  A user whose optional fields are all absent, twelve repositories with ties among
  their star counts, and a world in which every call succeeds.
\<close>

definition sample_user :: userData where
  "sample_user =
     \<lparr> u_login = Str ''octocat'', u_name = Null, u_avatar_url = Str ''https://a/1.png'',
       u_bio = Null, u_company = Undefined, u_location = Null, u_email = Null, u_blog = Undefined,
       u_followers = Num 5, u_following = Num 7, u_public_repos = Num 12,
       u_created_at = Str ''2011-01-25T18:44:36Z'', u_html_url = Str ''https://github.com/octocat'' \<rparr>"

definition sample_repo :: "string \<Rightarrow> int \<Rightarrow> repoData" where
  "sample_repo n s =
     \<lparr> r_name = Str n, r_description = Null, r_stargazers_count = s, r_forks_count = Num 0,
       r_language = Undefined, r_html_url = Str (''https://github.com/octocat/'' @ n) \<rparr>"

definition sample_repos :: "repoData list" where
  "sample_repos =
     [sample_repo ''a'' 3, sample_repo ''b'' 7, sample_repo ''c'' 3, sample_repo ''d'' 0,
      sample_repo ''e'' 9, sample_repo ''f'' 7, sample_repo ''g'' 1, sample_repo ''h'' 0,
      sample_repo ''i'' 3, sample_repo ''j'' 2, sample_repo ''k'' 0, sample_repo ''l'' 5]"

definition sample_env :: env where
  "sample_env =
     \<lparr> GITHUB_TOKEN = [],
       fetch_user = (\<lambda>u h. Inr \<lparr> status = 200, json = Inr sample_user \<rparr>),
       fetch_repos = (\<lambda>u h. Inr \<lparr> status = 200, json = Inr sample_repos \<rparr>),
       fetch_readme = (\<lambda>u h. Inr \<lparr> status = 200, json = Inr \<lparr> content = Str ''SGk='' \<rparr> \<rparr>),
       base64_utf8 = (\<lambda>v. Inr ''Hi''),
       marked_parse = (\<lambda>m. Inr (''<p>'' @ m @ ''</p>'')),
       defaults_allowedTags = [''p'', ''a''],
       sanitizeHtml = (\<lambda>h opts. Inr h),
       toLocaleDateString = (\<lambda>v. ''1/25/2011''),
       today = ''11/2/2026'',
       renderFile = (\<lambda>td b. Inr ''<html></html>''),
       import_puppeteer = Inr (),
       launch = Inr (),
       newPage = Inr (),
       setContent = (\<lambda>h. Inr ()),
       emulateMediaType = Inr (),
       pdf = (\<lambda>h. Inr [37, 80, 68, 70]),
       valid_header_value = (\<lambda>v. True),
       close = Inr () \<rparr>"

text \<open>The same world with an upstream that answers 404 for the profile.\<close>

definition absent_user_env :: env where
  "absent_user_env =
     sample_env\<lparr> fetch_user := (\<lambda>u h. Inr \<lparr> status = 404, json = Inl (Error ''no body'') \<rparr>) \<rparr>"

text \<open>The same world with an upstream that answers 404 for the repositories.\<close>

definition absent_repos_env :: env where
  "absent_repos_env =
     sample_env\<lparr> fetch_repos := (\<lambda>u h. Inr \<lparr> status = 404, json = Inl (Error ''no body'') \<rparr>) \<rparr>"

text \<open>The same world with a user who has three repositories.\<close>

definition few_repos_env :: env where
  "few_repos_env =
     sample_env\<lparr> fetch_repos := (\<lambda>u h. Inr \<lparr> status = 200, json = Inr (take 3 sample_repos) \<rparr>) \<rparr>"

text \<open>
  A user with 101 repositories, the last one with the most stars, and the same world
  with an upstream that serves the first page of them: their first 100.
\<close>

definition many_repos :: "repoData list" where
  "many_repos =
     map (\<lambda>i. sample_repo (''r'' @ string_of_nat i) (int (i mod 7))) [0..<100]
     @ [sample_repo ''late'' 99]"

definition paged_env :: env where
  "paged_env =
     sample_env\<lparr> fetch_repos := (\<lambda>u h. Inr \<lparr> status = 200, json = Inr (take 100 many_repos) \<rparr>) \<rparr>"

text \<open>The same world with a README request that fails in the network.\<close>

definition no_readme_env :: env where
  "no_readme_env = sample_env\<lparr> fetch_readme := (\<lambda>u h. Inl (Error ''ECONNRESET'')) \<rparr>"

text \<open>The same world with no profile README: the upstream answers 404 for it.\<close>

definition readme_404_env :: env where
  "readme_404_env =
     sample_env\<lparr> fetch_readme := (\<lambda>u h. Inr \<lparr> status = 404, json = Inl (Error ''no body'') \<rparr>) \<rparr>"

text \<open>The same world with a README answer that has no \<^verbatim>\<open>content\<close>.\<close>

definition no_content_env :: env where
  "no_content_env =
     sample_env\<lparr> fetch_readme := (\<lambda>u h. Inr \<lparr> status = 200, json = Inr \<lparr> content = Undefined \<rparr> \<rparr>) \<rparr>"

text \<open>The same world with a browser whose page fails to produce the PDF.\<close>

definition failing_pdf_env :: env where
  "failing_pdf_env = sample_env\<lparr> pdf := (\<lambda>h. Inl (Error ''Protocol error'')) \<rparr>"

section \<open>The sort, the slice and the builder\<close>

text \<open>
  With the comparator of step 3 the stable insertion is the library's stable sort on the
  negated star count, whose lemmas give order, content and stability.
\<close>

lemma sort_insert_by_stars:
  "sort_insert by_stars x ys = insort_key (\<lambda>r. - r_stargazers_count r) x ys"
  by (induction ys) (simp_all add: by_stars_def)

lemma array_sort_by_stars:
  "array_sort by_stars xs = sort_key (\<lambda>r. - r_stargazers_count r) xs"
  by (induction xs) (simp_all add: array_sort_def sort_insert_by_stars)

lemma slice_0: "slice 0 n xs = take n xs"
  by (simp add: slice_def)

lemma stars_repo_summary: "stars (repo_summary r) = r_stargazers_count r"
  by (simp add: repo_summary_def)

lemma length_topRepos: "length (topRepos rs) = min 10 (length rs)"
  by (simp add: topRepos_def slice_0 array_sort_by_stars)

lemma sorted_desc_take: "sorted_wrt P xs \<Longrightarrow> sorted_wrt P (take n xs)"
  by (metis append_take_drop_id sorted_wrt_append)

lemma sorted_array_sort:
  "sorted_wrt (\<lambda>a b. r_stargazers_count b \<le> r_stargazers_count a) (array_sort by_stars rs)"
proof -
  have "sorted (map (\<lambda>r. - r_stargazers_count r) (sort_key (\<lambda>r. - r_stargazers_count r) rs))"
    by (rule sorted_sort_key)
  then show ?thesis
    by (simp add: array_sort_by_stars sorted_map)
qed

lemma sorted_topRepos: "sorted_wrt (\<lambda>a b. stars b \<le> stars a) (topRepos rs)"
proof -
  have "sorted_wrt (\<lambda>a b. r_stargazers_count b \<le> r_stargazers_count a) (take 10 (array_sort by_stars rs))"
    by (rule sorted_desc_take) (rule sorted_array_sort)
  then show ?thesis
    by (simp add: topRepos_def slice_0 sorted_wrt_map stars_repo_summary)
qed

lemma mset_take_subset: "mset (take n xs) \<subseteq># mset xs"
  by (metis append_take_drop_id mset_append mset_subset_eq_add_left)

lemma picked_topRepos: "mset (slice 0 10 (array_sort by_stars rs)) \<subseteq># mset rs"
proof -
  have "mset (take 10 (array_sort by_stars rs)) \<subseteq># mset (array_sort by_stars rs)"
    by (rule mset_take_subset)
  then show ?thesis
    by (simp add: slice_0 array_sort_by_stars)
qed

lemma prefix_filter_take: "prefix (filter P (take n xs)) (filter P xs)"
  by (metis append_take_drop_id filter_append prefixI)

lemma stable_topRepos:
  "prefix (filter (\<lambda>r. r_stargazers_count r = k) (slice 0 10 (array_sort by_stars rs)))
          (filter (\<lambda>r. r_stargazers_count r = k) rs)"
proof -
  have "filter (\<lambda>r. - r_stargazers_count r = - k) (sort_key (\<lambda>r. - r_stargazers_count r) rs)
        = filter (\<lambda>r. - r_stargazers_count r = - k) rs"
    by (rule sort_key_stable)
  then have "filter (\<lambda>r. r_stargazers_count r = k) (array_sort by_stars rs)
        = filter (\<lambda>r. r_stargazers_count r = k) rs"
    by (simp add: array_sort_by_stars)
  then show ?thesis
    using prefix_filter_take [of "\<lambda>r. r_stargazers_count r = k" 10 "array_sort by_stars rs"]
    by (simp add: slice_0)
qed

lemma fst_fetchGitHubData: "fst (fetchGitHubData env f u) = [Fetch u]"
  by (simp add: fetchGitHubData_def)

lemma fst_fetchUserReadmeHtml: "fst (fetchUserReadmeHtml env u) = [Fetch (readmeMetaUrl u)]"
  by (simp add: fetchUserReadmeHtml_def readme_try_def split: sum.splits)

lemma snd_fetchUserReadmeHtml:
  "snd (fetchUserReadmeHtml env u) =
     Inr (case snd (readme_try env u) of Inl e \<Rightarrow> [] | Inr h \<Rightarrow> h)"
  by (cases "readme_try env u") (simp add: fetchUserReadmeHtml_def split: sum.splits)

lemma buildTemplateData_Inr:
  assumes "buildTemplateData env u = (evs, Inr td)"
  shows "\<exists>ud rs html.
           snd (fetchGitHubData env (fetch_user env) (userUrl u)) = Inr ud \<and>
           snd (fetchGitHubData env (fetch_repos env) (reposUrl u)) = Inr rs \<and>
           snd (fetchUserReadmeHtml env u) = Inr html \<and>
           td = template_record env ud (topRepos rs) html \<and>
           evs = [Fetch (userUrl u), Fetch (reposUrl u), Fetch (readmeMetaUrl u)]"
proof -
  obtain e1 r1 where f1: "fetchGitHubData env (fetch_user env) (userUrl u) = (e1, r1)"
    by (cases "fetchGitHubData env (fetch_user env) (userUrl u)")
  obtain e2 r2 where f2: "fetchGitHubData env (fetch_repos env) (reposUrl u) = (e2, r2)"
    by (cases "fetchGitHubData env (fetch_repos env) (reposUrl u)")
  obtain e3 r3 where f3: "fetchUserReadmeHtml env u = (e3, r3)"
    by (cases "fetchUserReadmeHtml env u")
  have e1: "e1 = [Fetch (userUrl u)]" using f1 fst_fetchGitHubData [of env "fetch_user env" "userUrl u"] by simp
  have e2: "e2 = [Fetch (reposUrl u)]" using f2 fst_fetchGitHubData [of env "fetch_repos env" "reposUrl u"] by simp
  have e3: "e3 = [Fetch (readmeMetaUrl u)]" using f3 fst_fetchUserReadmeHtml [of env u] by simp
  from assms f1 f2 f3 e1 e2 e3 show ?thesis
    by (auto simp add: buildTemplateData_def split: sum.splits)
qed

lemma buildTemplateData_events:
  "fst (buildTemplateData env u) = [Fetch (userUrl u)] \<or>
   fst (buildTemplateData env u) = [Fetch (userUrl u), Fetch (reposUrl u)] \<or>
   fst (buildTemplateData env u) = [Fetch (userUrl u), Fetch (reposUrl u), Fetch (readmeMetaUrl u)]"
proof -
  obtain e1 r1 where f1: "fetchGitHubData env (fetch_user env) (userUrl u) = (e1, r1)"
    by (cases "fetchGitHubData env (fetch_user env) (userUrl u)")
  obtain e2 r2 where f2: "fetchGitHubData env (fetch_repos env) (reposUrl u) = (e2, r2)"
    by (cases "fetchGitHubData env (fetch_repos env) (reposUrl u)")
  obtain e3 r3 where f3: "fetchUserReadmeHtml env u = (e3, r3)"
    by (cases "fetchUserReadmeHtml env u")
  have e1: "e1 = [Fetch (userUrl u)]" using f1 fst_fetchGitHubData [of env "fetch_user env" "userUrl u"] by simp
  have e2: "e2 = [Fetch (reposUrl u)]" using f2 fst_fetchGitHubData [of env "fetch_repos env" "reposUrl u"] by simp
  have e3: "e3 = [Fetch (readmeMetaUrl u)]" using f3 fst_fetchUserReadmeHtml [of env u] by simp
  from f1 f2 f3 e1 e2 e3 show ?thesis
    by (auto simp add: buildTemplateData_def split: sum.splits)
qed

section \<open>The sample worlds, evaluated\<close>

lemma build_sample:
  "buildTemplateData sample_env ''octocat'' =
     ([Fetch (userUrl ''octocat''), Fetch (reposUrl ''octocat''), Fetch (readmeMetaUrl ''octocat'')],
      Inr (template_record sample_env sample_user (topRepos sample_repos) ''<p>Hi</p>''))"
  by (simp add: buildTemplateData_def fetchGitHubData_def fetchUserReadmeHtml_def readme_try_def
      sample_env_def ok_def)

lemma top_sample: "map stars (topRepos sample_repos) = [9, 7, 7, 5, 3, 3, 3, 2, 1, 0]"
  by (simp add: topRepos_def slice_def array_sort_def sample_repos_def sample_repo_def by_stars_def repo_summary_def)

lemma build_few:
  "buildTemplateData few_repos_env ''octocat'' =
     ([Fetch (userUrl ''octocat''), Fetch (reposUrl ''octocat''), Fetch (readmeMetaUrl ''octocat'')],
      Inr (template_record few_repos_env sample_user (topRepos (take 3 sample_repos)) ''<p>Hi</p>''))"
  by (simp add: buildTemplateData_def fetchGitHubData_def fetchUserReadmeHtml_def readme_try_def
      few_repos_env_def sample_env_def ok_def)

lemma repos_sample: "snd (fetchGitHubData sample_env (fetch_repos sample_env) (reposUrl ''octocat'')) = Inr sample_repos"
  by (simp add: fetchGitHubData_def sample_env_def ok_def)

lemma repos_few: "snd (fetchGitHubData few_repos_env (fetch_repos few_repos_env) (reposUrl ''octocat'')) = Inr (take 3 sample_repos)"
  by (simp add: fetchGitHubData_def few_repos_env_def sample_env_def ok_def)


section \<open>The top repositories\<close>

text \<open>
  Claim C3. When \<^verbatim>\<open>buildTemplateData\<close> returns a view model and \<open>reposData\<close> is the
  list that the repositories request returned: with ten or more entries the \<open>repos\<close> of
  the view model has exactly ten, with fewer it has as many as the list; it is in
  descending order of stars; and it is the image under the mapping of step 3 of a list
  \<open>picked\<close> whose entries are distinct entries of \<open>reposData\<close> (a sub-multiset of it).
\<close>

theorem top_repos_ten_sorted_from_input:
  assumes "snd (buildTemplateData env username) = Inr td"
    and "snd (fetchGitHubData env (fetch_repos env) (reposUrl username)) = Inr reposData"
  shows "(10 \<le> length reposData \<longrightarrow> length (repos td) = 10) \<and>
         (length reposData < 10 \<longrightarrow> length (repos td) = length reposData) \<and>
         sorted_wrt (\<lambda>a b. stars b \<le> stars a) (repos td) \<and>
         (\<exists>picked. repos td = map repo_summary picked \<and> mset picked \<subseteq># mset reposData)"
proof -
  obtain evs where "buildTemplateData env username = (evs, Inr td)"
    using assms(1) by (cases "buildTemplateData env username") simp
  from buildTemplateData_Inr [OF this] assms(2)
  obtain ud html where td: "td = template_record env ud (topRepos reposData) html"
    by auto
  have r: "repos td = topRepos reposData"
    by (simp add: td template_record_def)
  have "length (repos td) = min 10 (length reposData)"
    by (simp add: r length_topRepos)
  moreover have "sorted_wrt (\<lambda>a b. stars b \<le> stars a) (repos td)"
    by (simp add: r sorted_topRepos)
  moreover have "\<exists>picked. repos td = map repo_summary picked \<and> mset picked \<subseteq># mset reposData"
  proof (intro exI conjI)
    show "repos td = map repo_summary (slice 0 10 (array_sort by_stars reposData))"
      by (simp add: r topRepos_def)
    show "mset (slice 0 10 (array_sort by_stars reposData)) \<subseteq># mset reposData"
      by (rule picked_topRepos)
  qed
  ultimately show ?thesis by simp
qed

theorem top_repos_ten_sorted_from_input_witness:
  "10 \<le> length sample_repos \<and>
   length (repos (projr (snd (buildTemplateData sample_env ''octocat'')))) = 10 \<and>
   length (take 3 sample_repos) < 10 \<and>
   length (repos (projr (snd (buildTemplateData few_repos_env ''octocat'')))) = 3 \<and>
   sorted_wrt (\<lambda>a b. stars b \<le> stars a) (repos (projr (snd (buildTemplateData sample_env ''octocat'')))) \<and>
   map stars (repos (projr (snd (buildTemplateData sample_env ''octocat'')))) = [9, 7, 7, 5, 3, 3, 3, 2, 1, 0]"
proof -
  have b1: "snd (buildTemplateData sample_env ''octocat'') =
      Inr (projr (snd (buildTemplateData sample_env ''octocat'')))"
    by (simp add: build_sample)
  have b2: "snd (buildTemplateData few_repos_env ''octocat'') =
      Inr (projr (snd (buildTemplateData few_repos_env ''octocat'')))"
    by (simp add: build_few)
  have n1: "length sample_repos = 12"
    by (simp add: sample_repos_def)
  have n2: "length (take 3 sample_repos) = 3"
    by (simp add: n1)
  have v: "map stars (repos (projr (snd (buildTemplateData sample_env ''octocat'')))) =
      [9, 7, 7, 5, 3, 3, 3, 2, 1, 0]"
    by (simp add: build_sample template_record_def top_sample)
  show ?thesis
    using top_repos_ten_sorted_from_input [OF b1 repos_sample]
      top_repos_ten_sorted_from_input [OF b2 repos_few] n1 n2 v
    by simp
qed

text \<open>
  Claim C8. The sort of step 3 is stable: for every star count \<open>k\<close>, the picked
  repositories with \<open>k\<close> stars are, in the same order, the first ones of the
  repositories with \<open>k\<close> stars in the list that the API returned.
\<close>

theorem equal_stars_keep_api_order:
  assumes "snd (buildTemplateData env username) = Inr td"
    and "snd (fetchGitHubData env (fetch_repos env) (reposUrl username)) = Inr reposData"
  shows "\<exists>picked. repos td = map repo_summary picked \<and>
           (\<forall>k. prefix (filter (\<lambda>r. r_stargazers_count r = k) picked)
                       (filter (\<lambda>r. r_stargazers_count r = k) reposData))"
proof -
  obtain evs where "buildTemplateData env username = (evs, Inr td)"
    using assms(1) by (cases "buildTemplateData env username") simp
  from buildTemplateData_Inr [OF this] assms(2)
  obtain ud html where td: "td = template_record env ud (topRepos reposData) html"
    by auto
  show ?thesis
  proof (intro exI conjI allI)
    show "repos td = map repo_summary (slice 0 10 (array_sort by_stars reposData))"
      by (simp add: td template_record_def topRepos_def)
    show "prefix (filter (\<lambda>r. r_stargazers_count r = k) (slice 0 10 (array_sort by_stars reposData)))
            (filter (\<lambda>r. r_stargazers_count r = k) reposData)" for k
      by (rule stable_topRepos)
  qed
qed

theorem equal_stars_keep_api_order_witness:
  "map repo_name (filter (\<lambda>v. stars v = 3) (repos (projr (snd (buildTemplateData sample_env ''octocat'')))))
     = [Str ''a'', Str ''c'', Str ''i''] \<and>
   map r_name (filter (\<lambda>r. r_stargazers_count r = 3) sample_repos) = [Str ''a'', Str ''c'', Str ''i''] \<and>
   (\<exists>picked. repos (projr (snd (buildTemplateData sample_env ''octocat''))) = map repo_summary picked \<and>
      prefix (filter (\<lambda>r. r_stargazers_count r = 3) picked)
             (filter (\<lambda>r. r_stargazers_count r = 3) sample_repos))"
proof -
  have b1: "snd (buildTemplateData sample_env ''octocat'') =
      Inr (projr (snd (buildTemplateData sample_env ''octocat'')))"
    by (simp add: build_sample)
  have v1: "map repo_name (filter (\<lambda>v. stars v = 3) (repos (projr (snd (buildTemplateData sample_env ''octocat'')))))
     = [Str ''a'', Str ''c'', Str ''i'']"
    by (simp add: build_sample template_record_def topRepos_def slice_def array_sort_def
        sample_repos_def sample_repo_def by_stars_def repo_summary_def)
  have v2: "map r_name (filter (\<lambda>r. r_stargazers_count r = 3) sample_repos) = [Str ''a'', Str ''c'', Str ''i'']"
    by (simp add: sample_repos_def sample_repo_def)
  show ?thesis
    using equal_stars_keep_api_order [OF b1 repos_sample] v1 v2 by blast
qed

section \<open>The placeholders of the profile\<close>





section \<open>The README never fails the request\<close>

text \<open>
  Claim C5. \<^verbatim>\<open>fetchUserReadmeHtml\<close> returns a string for every world and every username,
  and never throws. It returns the empty string whenever its \<^verbatim>\<open>try\<close> block throws, and in
  each failure mode: a rejected \<^verbatim>\<open>fetch\<close>, a response that is not a success, a body that
  does not parse, a missing \<^verbatim>\<open>content\<close>, a decode error. So \<^verbatim>\<open>buildTemplateData\<close> returns a
  view model whenever its profile and repositories requests succeed.
\<close>

theorem readme_fetch_never_throws:
  "(\<exists>html. snd (fetchUserReadmeHtml env username) = Inr html) \<and>
   (\<forall>e. snd (readme_try env username) = Inl e \<longrightarrow> snd (fetchUserReadmeHtml env username) = Inr []) \<and>
   (\<forall>e. fetch_readme env (readmeMetaUrl username) (request_headers env) = Inl e \<longrightarrow>
      snd (fetchUserReadmeHtml env username) = Inr []) \<and>
   (\<forall>res. fetch_readme env (readmeMetaUrl username) (request_headers env) = Inr res \<and> \<not> ok res \<longrightarrow>
      snd (fetchUserReadmeHtml env username) = Inr []) \<and>
   (\<forall>res e. fetch_readme env (readmeMetaUrl username) (request_headers env) = Inr res \<and> ok res \<and>
      json res = Inl e \<longrightarrow> snd (fetchUserReadmeHtml env username) = Inr []) \<and>
   (\<forall>res meta. fetch_readme env (readmeMetaUrl username) (request_headers env) = Inr res \<and> ok res \<and>
      json res = Inr meta \<and> absent (content meta) \<longrightarrow> snd (fetchUserReadmeHtml env username) = Inr []) \<and>
   (\<forall>res meta e. fetch_readme env (readmeMetaUrl username) (request_headers env) = Inr res \<and> ok res \<and>
      json res = Inr meta \<and> truthy (content meta) \<and> base64_utf8 env (content meta) = Inl e \<longrightarrow>
      snd (fetchUserReadmeHtml env username) = Inr []) \<and>
   (\<forall>ud rs. snd (fetchGitHubData env (fetch_user env) (userUrl username)) = Inr ud \<and>
      snd (fetchGitHubData env (fetch_repos env) (reposUrl username)) = Inr rs \<longrightarrow>
      (\<exists>td. snd (buildTemplateData env username) = Inr td))"
proof (intro conjI allI impI)
  show "\<exists>html. snd (fetchUserReadmeHtml env username) = Inr html"
    by (simp add: snd_fetchUserReadmeHtml)
next
  fix e assume "snd (readme_try env username) = Inl e"
  then show "snd (fetchUserReadmeHtml env username) = Inr []"
    by (simp add: snd_fetchUserReadmeHtml)
next
  fix e assume "fetch_readme env (readmeMetaUrl username) (request_headers env) = Inl e"
  then show "snd (fetchUserReadmeHtml env username) = Inr []"
    by (simp add: snd_fetchUserReadmeHtml readme_try_def)
next
  fix res assume "fetch_readme env (readmeMetaUrl username) (request_headers env) = Inr res \<and> \<not> ok res"
  then show "snd (fetchUserReadmeHtml env username) = Inr []"
    by (simp add: snd_fetchUserReadmeHtml readme_try_def)
next
  fix res e assume "fetch_readme env (readmeMetaUrl username) (request_headers env) = Inr res \<and> ok res \<and>
      json res = Inl e"
  then show "snd (fetchUserReadmeHtml env username) = Inr []"
    by (simp add: snd_fetchUserReadmeHtml readme_try_def)
next
  fix res meta assume "fetch_readme env (readmeMetaUrl username) (request_headers env) = Inr res \<and> ok res \<and>
      json res = Inr meta \<and> absent (content meta)"
  then show "snd (fetchUserReadmeHtml env username) = Inr []"
    by (auto simp add: snd_fetchUserReadmeHtml readme_try_def absent_def)
next
  fix res meta e assume "fetch_readme env (readmeMetaUrl username) (request_headers env) = Inr res \<and> ok res \<and>
      json res = Inr meta \<and> truthy (content meta) \<and> base64_utf8 env (content meta) = Inl e"
  then show "snd (fetchUserReadmeHtml env username) = Inr []"
    by (simp add: snd_fetchUserReadmeHtml readme_try_def)
next
  fix ud rs assume a: "snd (fetchGitHubData env (fetch_user env) (userUrl username)) = Inr ud \<and>
      snd (fetchGitHubData env (fetch_repos env) (reposUrl username)) = Inr rs"
  obtain e3 r3 where f3: "fetchUserReadmeHtml env username = (e3, r3)"
    by (cases "fetchUserReadmeHtml env username")
  obtain h where "r3 = Inr h"
    using f3 snd_fetchUserReadmeHtml [of env username] by simp
  with a f3 show "\<exists>td. snd (buildTemplateData env username) = Inr td"
    by (cases "fetchGitHubData env (fetch_user env) (userUrl username)";
        cases "fetchGitHubData env (fetch_repos env) (reposUrl username)")
       (simp add: buildTemplateData_def)
qed

theorem readme_fetch_never_throws_witness:
  "fetch_readme no_readme_env (readmeMetaUrl ''octocat'') (request_headers no_readme_env) = Inl (Error ''ECONNRESET'') \<and>
   snd (fetchUserReadmeHtml no_readme_env ''octocat'') = Inr [] \<and>
   (\<exists>td. snd (buildTemplateData no_readme_env ''octocat'') = Inr td) \<and>
   \<not> ok \<lparr> status = 404, json = Inl (Error ''no body'') :: error + readmeMeta \<rparr> \<and>
   snd (fetchUserReadmeHtml readme_404_env ''octocat'') = Inr [] \<and>
   absent (content \<lparr> content = Undefined \<rparr>) \<and>
   snd (fetchUserReadmeHtml no_content_env ''octocat'') = Inr []"
proof -
  have f: "fetch_readme no_readme_env (readmeMetaUrl ''octocat'') (request_headers no_readme_env) = Inl (Error ''ECONNRESET'')"
    by (simp add: no_readme_env_def)
  have u: "snd (fetchGitHubData no_readme_env (fetch_user no_readme_env) (userUrl ''octocat'')) = Inr sample_user"
    by (simp add: fetchGitHubData_def no_readme_env_def sample_env_def ok_def)
  have r: "snd (fetchGitHubData no_readme_env (fetch_repos no_readme_env) (reposUrl ''octocat'')) = Inr sample_repos"
    by (simp add: fetchGitHubData_def no_readme_env_def sample_env_def ok_def)
  have g: "fetch_readme readme_404_env (readmeMetaUrl ''octocat'') (request_headers readme_404_env) =
      Inr \<lparr> status = 404, json = Inl (Error ''no body'') \<rparr>"
    by (simp add: readme_404_env_def)
  have n: "\<not> ok \<lparr> status = 404, json = Inl (Error ''no body'') :: error + readmeMeta \<rparr>"
    by (simp add: ok_def)
  have c: "fetch_readme no_content_env (readmeMetaUrl ''octocat'') (request_headers no_content_env) =
      Inr \<lparr> status = 200, json = Inr \<lparr> content = Undefined \<rparr> \<rparr>"
    by (simp add: no_content_env_def)
  have k: "ok \<lparr> status = 200, json = Inr \<lparr> content = Undefined \<rparr> \<rparr>"
    by (simp add: ok_def)
  have a: "absent (content \<lparr> content = Undefined \<rparr>)"
    by (simp add: absent_def)
  have w1: "snd (fetchUserReadmeHtml no_readme_env ''octocat'') = Inr [] \<and>
      (\<exists>td. snd (buildTemplateData no_readme_env ''octocat'') = Inr td)"
    using readme_fetch_never_throws [of no_readme_env "''octocat''"] f u r by blast
  have w2: "snd (fetchUserReadmeHtml readme_404_env ''octocat'') = Inr []"
    using readme_fetch_never_throws [of readme_404_env "''octocat''"] g n by blast
  have w3: "snd (fetchUserReadmeHtml no_content_env ''octocat'') = Inr []"
  proof -
    have "fetch_readme no_content_env (readmeMetaUrl ''octocat'') (request_headers no_content_env) =
        Inr \<lparr> status = 200, json = Inr \<lparr> content = Undefined \<rparr> \<rparr> \<and>
      ok \<lparr> status = 200, json = Inr \<lparr> content = Undefined \<rparr> \<rparr> \<and>
      json \<lparr> status = 200, json = Inr \<lparr> content = Undefined \<rparr> \<rparr> = Inr \<lparr> content = Undefined \<rparr> \<and>
      absent (content \<lparr> content = Undefined \<rparr>)"
      using c k a by simp
    then show ?thesis
      using readme_fetch_never_throws [of no_content_env "''octocat''"] by blast
  qed
  from f w1 n w2 a w3 show ?thesis by simp
qed

section \<open>The browser is closed\<close>

lemma build_no_browser:
  "BrowserLaunched \<notin> set (fst (buildTemplateData env u)) \<and> BrowserClose \<notin> set (fst (buildTemplateData env u))"
  using buildTemplateData_events [of env u] by auto

lemma export_try_no_browser:
  "BrowserLaunched \<notin> set (fst (export_try env u h res)) \<and> BrowserClose \<notin> set (fst (export_try env u h res))"
  by (cases "newPage env"; cases "setContent env h"; cases "emulateMediaType env"; cases "pdf env h")
     (simp_all add: export_try_def)

lemma pdf_handler_events:
  assumes "pdf_handler env cachedPuppeteer q = (cached, evs, res)"
  shows "evs = [] \<or> (\<exists>u. evs = fst (buildTemplateData env u)) \<or>
         (\<exists>u h. evs = fst (buildTemplateData env u) @ [BrowserLaunched] @ fst (export_try env u h new_res) @ [BrowserClose])"
proof (cases q)
  case None
  with assms show ?thesis by (simp add: pdf_handler_def)
next
  case (Some username)
  show ?thesis
  proof (cases "username = []")
    case True
    with assms Some show ?thesis by (simp add: pdf_handler_def)
  next
    case False
    obtain e0 r0 where b: "buildTemplateData env username = (e0, r0)"
      by (cases "buildTemplateData env username")
    have e0: "e0 = fst (buildTemplateData env username)"
      by (simp add: b)
    show ?thesis
    proof (cases r0)
      case (Inl err)
      with assms Some False b have "evs = e0" by (simp add: pdf_handler_def)
      with e0 show ?thesis by blast
    next
      case (Inr td)
      show ?thesis
      proof (cases "renderFile env td False")
        case (Inl err)
        with assms Some False b Inr have "evs = e0" by (simp add: pdf_handler_def)
        with e0 show ?thesis by blast
      next
        case html: (Inr h)
        obtain c1 p where g: "getPuppeteer env cachedPuppeteer = (c1, p)"
          by (cases "getPuppeteer env cachedPuppeteer")
        obtain e1 res1 r1 where x: "export_try env username h new_res = (e1, res1, r1)"
          by (cases "export_try env username h new_res")
        have e1: "e1 = fst (export_try env username h new_res)"
          by (simp add: x)
        have "evs = e0 \<or> evs = e0 @ [BrowserLaunched] @ e1 @ [BrowserClose]"
        proof (cases p)
          case (Inl err)
          with assms Some False b Inr html g show ?thesis by (simp add: pdf_handler_def)
        next
          case pup: (Inr v)
          show ?thesis
          proof (cases "launch env")
            case (Inl err)
            with assms Some False b Inr html g pup show ?thesis by (simp add: pdf_handler_def)
          next
            case br: (Inr w)
            show ?thesis
            proof (cases "close env")
              case (Inl err)
              with assms Some False b Inr html g pup br x show ?thesis by (simp add: pdf_handler_def)
            next
              case cl: (Inr z)
              with assms Some False b Inr html g pup br x show ?thesis
                by (cases r1) (simp_all add: pdf_handler_def)
            qed
          qed
        qed
        with e0 e1 show ?thesis by blast
      qed
    qed
  qed
qed

lemma string_of_nat_4: "string_of_nat (Suc (Suc (Suc (Suc 0)))) = ''4''"
  by code_simp

lemma pdf_failing:
  "pdf_handler failing_pdf_env False (Some ''octocat'') =
     (True,
      [Fetch (userUrl ''octocat''), Fetch (reposUrl ''octocat''), Fetch (readmeMetaUrl ''octocat''),
       BrowserLaunched, NewPage, SetContent, EmulateMediaType, Pdf, BrowserClose],
      \<lparr> statusCode = 500, res_headers = [], body = Text ''Error generating PDF: Protocol error'', finished = True \<rparr>)"
  by (simp add: pdf_handler_def buildTemplateData_def fetchGitHubData_def fetchUserReadmeHtml_def
      readme_try_def failing_pdf_env_def sample_env_def ok_def getPuppeteer_def export_try_def
      pdf_catch_def send_def res_status_def new_res_def)

lemma pdf_sample:
  "pdf_handler sample_env False (Some ''octocat'') =
     (True,
      [Fetch (userUrl ''octocat''), Fetch (reposUrl ''octocat''), Fetch (readmeMetaUrl ''octocat''),
       BrowserLaunched, NewPage, SetContent, EmulateMediaType, Pdf, BrowserClose],
      \<lparr> statusCode = 200,
        res_headers = [(''Content-Type'', ''application/pdf''),
          (''Content-Disposition'', ''attachment; filename='' @ [CHR 0x22] @ ''octocat-github-resume.pdf'' @ [CHR 0x22]),
          (''Content-Length'', ''4'')],
        body = Bytes [37, 80, 68, 70], finished = True \<rparr>)"
  by (simp add: pdf_handler_def buildTemplateData_def fetchGitHubData_def fetchUserReadmeHtml_def
      readme_try_def sample_env_def ok_def getPuppeteer_def export_try_def send_pdf_def setHeader_def
      res_end_def new_res_def string_of_nat_4 del: string_of_nat.simps)

text \<open>
  Claim C2. In every run of the \<^verbatim>\<open>/pdf\<close> handler in which \<^verbatim>\<open>puppeteer.launch\<close> has
  returned a browser, \<^verbatim>\<open>browser.close()\<close> is called: the events are those before the
  launch, the launch, the calls on the page, and the close as the last event, once,
  whether every step after the launch succeeded or one of them threw.
\<close>

theorem browser_closed_on_every_exit_path:
  assumes "pdf_handler env cachedPuppeteer q = (cached, evs, res)"
    and "BrowserLaunched \<in> set evs"
  shows "\<exists>before after. evs = before @ [BrowserLaunched] @ after @ [BrowserClose] \<and>
           BrowserLaunched \<notin> set before \<and> BrowserClose \<notin> set before \<and>
           BrowserLaunched \<notin> set after \<and> BrowserClose \<notin> set after"
proof -
  from pdf_handler_events [OF assms(1)] assms(2) build_no_browser [of env]
  obtain u h where "evs = fst (buildTemplateData env u) @ [BrowserLaunched] @ fst (export_try env u h new_res) @ [BrowserClose]"
    by auto
  then show ?thesis
    using build_no_browser [of env u] export_try_no_browser [of env u h new_res] by blast
qed

theorem browser_closed_on_every_exit_path_witness:
  "BrowserLaunched \<in> set (fst (snd (pdf_handler failing_pdf_env False (Some ''octocat'')))) \<and>
   statusCode (snd (snd (pdf_handler failing_pdf_env False (Some ''octocat'')))) = 500 \<and>
   (\<exists>before after. fst (snd (pdf_handler failing_pdf_env False (Some ''octocat''))) =
        before @ [BrowserLaunched] @ after @ [BrowserClose] \<and>
        BrowserClose \<notin> set before \<and> BrowserClose \<notin> set after) \<and>
   BrowserLaunched \<in> set (fst (snd (pdf_handler sample_env False (Some ''octocat'')))) \<and>
   statusCode (snd (snd (pdf_handler sample_env False (Some ''octocat'')))) = 200 \<and>
   (\<exists>before after. fst (snd (pdf_handler sample_env False (Some ''octocat''))) =
        before @ [BrowserLaunched] @ after @ [BrowserClose] \<and>
        BrowserClose \<notin> set before \<and> BrowserClose \<notin> set after)"
proof -
  have a: "pdf_handler failing_pdf_env False (Some ''octocat'') =
      (fst (pdf_handler failing_pdf_env False (Some ''octocat'')),
       fst (snd (pdf_handler failing_pdf_env False (Some ''octocat''))),
       snd (snd (pdf_handler failing_pdf_env False (Some ''octocat''))))"
    by simp
  have b: "pdf_handler sample_env False (Some ''octocat'') =
      (fst (pdf_handler sample_env False (Some ''octocat'')),
       fst (snd (pdf_handler sample_env False (Some ''octocat''))),
       snd (snd (pdf_handler sample_env False (Some ''octocat''))))"
    by simp
  have la: "BrowserLaunched \<in> set (fst (snd (pdf_handler failing_pdf_env False (Some ''octocat''))))"
    by (simp add: pdf_failing)
  have lb: "BrowserLaunched \<in> set (fst (snd (pdf_handler sample_env False (Some ''octocat''))))"
    by (simp add: pdf_sample)
  have sa: "statusCode (snd (snd (pdf_handler failing_pdf_env False (Some ''octocat'')))) = 500"
    by (simp add: pdf_failing)
  have sb: "statusCode (snd (snd (pdf_handler sample_env False (Some ''octocat'')))) = 200"
    by (simp add: pdf_sample)
  have ca: "\<exists>before after. fst (snd (pdf_handler failing_pdf_env False (Some ''octocat''))) =
        before @ [BrowserLaunched] @ after @ [BrowserClose] \<and>
        BrowserClose \<notin> set before \<and> BrowserClose \<notin> set after"
    using browser_closed_on_every_exit_path [OF a la] by blast
  have cb: "\<exists>before after. fst (snd (pdf_handler sample_env False (Some ''octocat''))) =
        before @ [BrowserLaunched] @ after @ [BrowserClose] \<and>
        BrowserClose \<notin> set before \<and> BrowserClose \<notin> set after"
    using browser_closed_on_every_exit_path [OF b lb] by blast
  from la sa ca lb sb cb show ?thesis by simp
qed

section \<open>Requests without a username\<close>

text \<open>
  Claim C6. A request to \<^verbatim>\<open>/preview\<close> or \<^verbatim>\<open>/pdf\<close> without the \<^verbatim>\<open>username\<close> parameter is
  answered with status 400, and the handler makes no call of \<^verbatim>\<open>fetch\<close> (and none on the
  browser): its list of events is empty.
\<close>

theorem missing_username_is_400_without_upstream_call:
  "preview_handler env None =
     ([], \<lparr> statusCode = 400, res_headers = [], body = Text ''Username parameter is required'', finished = True \<rparr>) \<and>
   pdf_handler env cachedPuppeteer None =
     (cachedPuppeteer, [],
      \<lparr> statusCode = 400, res_headers = [], body = Text ''Username parameter is required'', finished = True \<rparr>)"
  by (simp add: preview_handler_def pdf_handler_def send_def res_status_def new_res_def)

theorem missing_username_is_400_without_upstream_call_witness:
  "fst (preview_handler sample_env None) = [] \<and>
   statusCode (snd (preview_handler sample_env None)) = 400 \<and>
   fst (snd (pdf_handler sample_env False None)) = [] \<and>
   statusCode (snd (snd (pdf_handler sample_env False None))) = 400"
  using missing_username_is_400_without_upstream_call [of sample_env False]
  by simp

section \<open>Absent users\<close>

lemma not_ok_404: "status r = 404 \<Longrightarrow> \<not> ok r"
  by (simp add: ok_def)

lemma fetchGitHubData_404:
  "fetch url (request_headers env) = Inr r \<Longrightarrow> status r = 404 \<Longrightarrow>
   snd (fetchGitHubData env fetch url) = Inl (Error ''User not found'')"
  by (simp add: fetchGitHubData_def not_ok_404)

lemma build_user_404:
  assumes "fetch_user env (userUrl u) (request_headers env) = Inr r" and "status r = 404"
  shows "snd (buildTemplateData env u) = Inl (Error ''User not found'')"
proof -
  have "snd (fetchGitHubData env (fetch_user env) (userUrl u)) = Inl (Error ''User not found'')"
    using assms by (rule fetchGitHubData_404)
  then show ?thesis
    by (cases "fetchGitHubData env (fetch_user env) (userUrl u)") (simp add: buildTemplateData_def)
qed

lemma build_repos_404:
  assumes "snd (fetchGitHubData env (fetch_user env) (userUrl u)) = Inr ud"
    and "fetch_repos env (reposUrl u) (request_headers env) = Inr r" and "status r = 404"
  shows "snd (buildTemplateData env u) = Inl (Error ''User not found'')"
proof -
  have "snd (fetchGitHubData env (fetch_repos env) (reposUrl u)) = Inl (Error ''User not found'')"
    using assms(2,3) by (rule fetchGitHubData_404)
  with assms(1) show ?thesis
    by (cases "fetchGitHubData env (fetch_user env) (userUrl u)";
        cases "fetchGitHubData env (fetch_repos env) (reposUrl u)")
       (simp add: buildTemplateData_def)
qed

lemma preview_handler_build_error:
  "username \<noteq> [] \<Longrightarrow> snd (buildTemplateData env username) = Inl e \<Longrightarrow>
   snd (preview_handler env (Some username)) = preview_catch username e new_res"
  by (cases "buildTemplateData env username") (simp add: preview_handler_def)

lemma pdf_handler_build_error:
  "username \<noteq> [] \<Longrightarrow> snd (buildTemplateData env username) = Inl e \<Longrightarrow>
   snd (snd (pdf_handler env c (Some username))) = pdf_catch username e new_res"
  by (cases "buildTemplateData env username") (simp add: pdf_handler_def)

lemma sublist_not_found_text: "sublist username (not_found_text username)"
  unfolding not_found_text_def sublist_def
  by (metis append.assoc)

text \<open>
  Claim C7. When the upstream answers 404 to the profile request, or to the
  repositories request after a successful profile request, both \<^verbatim>\<open>/preview\<close> and \<^verbatim>\<open>/pdf\<close>
  respond with status 404 and a text that contains the username.
\<close>

theorem absent_user_is_404_with_username:
  assumes "username \<noteq> []"
    and "(\<exists>r. fetch_user env (userUrl username) (request_headers env) = Inr r \<and> status r = 404) \<or>
         (\<exists>ud r. snd (fetchGitHubData env (fetch_user env) (userUrl username)) = Inr ud \<and>
            fetch_repos env (reposUrl username) (request_headers env) = Inr r \<and> status r = 404)"
  shows "statusCode (snd (preview_handler env (Some username))) = 404 \<and>
         body (snd (preview_handler env (Some username))) = Text (not_found_text username) \<and>
         statusCode (snd (snd (pdf_handler env cachedPuppeteer (Some username)))) = 404 \<and>
         body (snd (snd (pdf_handler env cachedPuppeteer (Some username)))) = Text (not_found_text username) \<and>
         sublist username (not_found_text username)"
proof -
  have e: "snd (buildTemplateData env username) = Inl (Error ''User not found'')"
    using assms(2) build_user_404 build_repos_404 by blast
  have p: "snd (preview_handler env (Some username)) =
      preview_catch username (Error ''User not found'') new_res"
    using assms(1) e by (rule preview_handler_build_error)
  have q: "snd (snd (pdf_handler env cachedPuppeteer (Some username))) =
      pdf_catch username (Error ''User not found'') new_res"
    using assms(1) e by (rule pdf_handler_build_error)
  show ?thesis
    by (simp add: p q preview_catch_def pdf_catch_def send_def res_status_def new_res_def
        sublist_not_found_text)
qed

theorem absent_user_is_404_with_username_witness:
  "fetch_user absent_user_env (userUrl ''octocat'') (request_headers absent_user_env) =
     Inr \<lparr> status = 404, json = Inl (Error ''no body'') \<rparr> \<and>
   statusCode (snd (preview_handler absent_user_env (Some ''octocat''))) = 404 \<and>
   body (snd (preview_handler absent_user_env (Some ''octocat''))) = Text (not_found_text ''octocat'') \<and>
   statusCode (snd (snd (pdf_handler absent_user_env False (Some ''octocat'')))) = 404 \<and>
   fetch_repos absent_repos_env (reposUrl ''octocat'') (request_headers absent_repos_env) =
     Inr \<lparr> status = 404, json = Inl (Error ''no body'') \<rparr> \<and>
   statusCode (snd (preview_handler absent_repos_env (Some ''octocat''))) = 404 \<and>
   body (snd (snd (pdf_handler absent_repos_env False (Some ''octocat'')))) = Text (not_found_text ''octocat'') \<and>
   sublist ''octocat'' (not_found_text ''octocat'')"
proof -
  have n: "''octocat'' \<noteq> []"
    by simp
  have u: "fetch_user absent_user_env (userUrl ''octocat'') (request_headers absent_user_env) =
     Inr \<lparr> status = 404, json = Inl (Error ''no body'') \<rparr>"
    by (simp add: absent_user_env_def)
  have r: "fetch_repos absent_repos_env (reposUrl ''octocat'') (request_headers absent_repos_env) =
     Inr \<lparr> status = 404, json = Inl (Error ''no body'') \<rparr>"
    by (simp add: absent_repos_env_def)
  have ud: "snd (fetchGitHubData absent_repos_env (fetch_user absent_repos_env) (userUrl ''octocat'')) =
     Inr sample_user"
    by (simp add: fetchGitHubData_def absent_repos_env_def sample_env_def ok_def)
  have h1: "(\<exists>r. fetch_user absent_user_env (userUrl ''octocat'') (request_headers absent_user_env) = Inr r \<and> status r = 404) \<or>
         (\<exists>ud r. snd (fetchGitHubData absent_user_env (fetch_user absent_user_env) (userUrl ''octocat'')) = Inr ud \<and>
            fetch_repos absent_user_env (reposUrl ''octocat'') (request_headers absent_user_env) = Inr r \<and> status r = 404)"
    using u by simp
  have h2: "(\<exists>r. fetch_user absent_repos_env (userUrl ''octocat'') (request_headers absent_repos_env) = Inr r \<and> status r = 404) \<or>
         (\<exists>ud r. snd (fetchGitHubData absent_repos_env (fetch_user absent_repos_env) (userUrl ''octocat'')) = Inr ud \<and>
            fetch_repos absent_repos_env (reposUrl ''octocat'') (request_headers absent_repos_env) = Inr r \<and> status r = 404)"
    using ud r by simp
  show ?thesis
    using absent_user_is_404_with_username [OF n h1, of False]
      absent_user_is_404_with_username [OF n h2, of False] u r
    by simp
qed

section \<open>One page of repositories\<close>

lemma userUrl_neq_reposUrl: "userUrl u \<noteq> reposUrl u"
  by (simp add: userUrl_def reposUrl_def)

lemma readmeMetaUrl_neq_reposUrl: "readmeMetaUrl u \<noteq> reposUrl u"
  by (simp add: readmeMetaUrl_def reposUrl_def)

lemma build_events_profile_failed:
  assumes "snd (fetchGitHubData env (fetch_user env) (userUrl u)) = Inl e"
  shows "fst (buildTemplateData env u) = [Fetch (userUrl u)]"
  using assms fst_fetchGitHubData [of env "fetch_user env" "userUrl u"]
  by (cases "fetchGitHubData env (fetch_user env) (userUrl u)") (simp add: buildTemplateData_def)

lemma build_events_profile_ok:
  assumes "snd (fetchGitHubData env (fetch_user env) (userUrl u)) = Inr ud"
  shows "fst (buildTemplateData env u) = [Fetch (userUrl u), Fetch (reposUrl u)] \<or>
         fst (buildTemplateData env u) = [Fetch (userUrl u), Fetch (reposUrl u), Fetch (readmeMetaUrl u)]"
proof -
  obtain e1 r1 where f1: "fetchGitHubData env (fetch_user env) (userUrl u) = (e1, r1)"
    by (cases "fetchGitHubData env (fetch_user env) (userUrl u)")
  obtain e2 r2 where f2: "fetchGitHubData env (fetch_repos env) (reposUrl u) = (e2, r2)"
    by (cases "fetchGitHubData env (fetch_repos env) (reposUrl u)")
  obtain e3 r3 where f3: "fetchUserReadmeHtml env u = (e3, r3)"
    by (cases "fetchUserReadmeHtml env u")
  have e1: "e1 = [Fetch (userUrl u)]"
    using f1 fst_fetchGitHubData [of env "fetch_user env" "userUrl u"] by simp
  have e2: "e2 = [Fetch (reposUrl u)]"
    using f2 fst_fetchGitHubData [of env "fetch_repos env" "reposUrl u"] by simp
  have e3: "e3 = [Fetch (readmeMetaUrl u)]"
    using f3 fst_fetchUserReadmeHtml [of env u] by simp
  have r1: "r1 = Inr ud"
    using assms f1 by simp
  show ?thesis
    by (cases r2; cases r3) (simp_all add: buildTemplateData_def f1 f2 f3 e1 e2 e3 r1)
qed

lemma count_repos_request_profile_ok:
  assumes "snd (fetchGitHubData env (fetch_user env) (userUrl u)) = Inr ud"
  shows "count_list (fst (buildTemplateData env u)) (Fetch (reposUrl u)) = 1"
  using build_events_profile_ok [OF assms] userUrl_neq_reposUrl [of u] readmeMetaUrl_neq_reposUrl [of u]
  by auto

lemma suffix_reposUrl: "suffix ''/repos?per_page=100&sort=stars'' (reposUrl u)"
  unfolding reposUrl_def suffix_def by (metis append.assoc)

lemma ten_highest:
  "\<forall>p\<in>set (slice 0 10 (array_sort by_stars rs)). \<forall>r\<in>set (drop 10 (array_sort by_stars rs)).
     r_stargazers_count r \<le> r_stargazers_count p"
proof -
  have "sorted_wrt (\<lambda>a b. r_stargazers_count b \<le> r_stargazers_count a)
          (take 10 (array_sort by_stars rs) @ drop 10 (array_sort by_stars rs))"
    using sorted_array_sort [of rs] by simp
  then show ?thesis
    unfolding sorted_wrt_append slice_0 by blast
qed

lemma picked_rest: "mset (slice 0 10 (array_sort by_stars rs)) + mset (drop 10 (array_sort by_stars rs)) = mset rs"
proof -
  have "mset (take 10 (array_sort by_stars rs)) + mset (drop 10 (array_sort by_stars rs))
        = mset (take 10 (array_sort by_stars rs) @ drop 10 (array_sort by_stars rs))"
    by (simp only: mset_append)
  also have "\<dots> = mset (array_sort by_stars rs)"
    by (simp only: append_take_drop_id)
  also have "\<dots> = mset rs"
    by (simp add: array_sort_by_stars)
  finally show ?thesis
    by (simp add: slice_0)
qed

lemma sorted_picked:
  "sorted_wrt (\<lambda>a b. r_stargazers_count b \<le> r_stargazers_count a) (slice 0 10 (array_sort by_stars rs))"
  unfolding slice_0 by (rule sorted_desc_take) (rule sorted_array_sort)

lemma length_picked: "length (slice 0 10 (array_sort by_stars (take 100 xs))) = min 10 (length xs)"
  by (simp add: slice_0 array_sort_by_stars)

lemma set_picked: "set (slice 0 10 (array_sort by_stars rs)) \<subseteq> set rs"
  using picked_topRepos [of rs] by (metis set_mset_mono set_mset_mset)

lemma length_many_repos: "length many_repos = 101"
  by (simp add: many_repos_def)

lemma drop_many_repos: "drop 100 many_repos = [sample_repo ''late'' 99]"
  by (simp add: many_repos_def)

lemma late_not_in_first_page: "sample_repo ''late'' 99 \<notin> set (take 100 many_repos)"
  by (auto simp add: many_repos_def sample_repo_def)

lemma build_paged:
  "buildTemplateData paged_env ''octocat'' =
     ([Fetch (userUrl ''octocat''), Fetch (reposUrl ''octocat''), Fetch (readmeMetaUrl ''octocat'')],
      Inr (template_record paged_env sample_user (topRepos (take 100 many_repos)) ''<p>Hi</p>''))"
  by (simp add: buildTemplateData_def fetchGitHubData_def fetchUserReadmeHtml_def readme_try_def
      paged_env_def sample_env_def ok_def)

lemma repos_paged:
  "snd (fetchGitHubData paged_env (fetch_repos paged_env) (reposUrl ''octocat'')) = Inr (take 100 many_repos)"
  by (simp add: fetchGitHubData_def paged_env_def sample_env_def ok_def)

lemma user_absent:
  "snd (fetchGitHubData absent_user_env (fetch_user absent_user_env) (userUrl ''octocat'')) =
     Inl (Error ''User not found'')"
  by (simp add: fetchGitHubData_def absent_user_env_def sample_env_def ok_def)

text \<open>
  Claim C10, as the code has it. Every request of \<^verbatim>\<open>buildTemplateData\<close> goes to one of its
  three URLs, and the repositories URL ends in \<^verbatim>\<open>/repos?per_page=100&sort=stars\<close>. It is
  requested exactly once in every run whose profile request succeeded, and not at all
  when the profile request failed. When the builder returns a view model and the
  upstream answered that one request with the first page of the user's repositories
  (the first 100 of \<open>all_repos\<close>), the \<open>repos\<close> are made from a list \<open>picked\<close> with: \<open>picked\<close>
  and the \<open>rest\<close> are together the entries of that page, at most 100; \<open>picked\<close> has ten
  entries or all of them, in descending order of stars; no entry of the \<open>rest\<close> has more
  stars than a picked one; and no repository outside the first 100 is picked.
\<close>

theorem one_repositories_request_top_ten_of_its_page:
  "set (fst (buildTemplateData env username)) \<subseteq>
     {Fetch (userUrl username), Fetch (reposUrl username), Fetch (readmeMetaUrl username)} \<and>
   suffix ''/repos?per_page=100&sort=stars'' (reposUrl username) \<and>
   (\<forall>ud. snd (fetchGitHubData env (fetch_user env) (userUrl username)) = Inr ud \<longrightarrow>
      count_list (fst (buildTemplateData env username)) (Fetch (reposUrl username)) = 1) \<and>
   (\<forall>e. snd (fetchGitHubData env (fetch_user env) (userUrl username)) = Inl e \<longrightarrow>
      count_list (fst (buildTemplateData env username)) (Fetch (reposUrl username)) = 0) \<and>
   (\<forall>td all_repos.
      snd (buildTemplateData env username) = Inr td \<and>
      snd (fetchGitHubData env (fetch_repos env) (reposUrl username)) = Inr (take 100 all_repos) \<longrightarrow>
      count_list (fst (buildTemplateData env username)) (Fetch (reposUrl username)) = 1 \<and>
      (\<exists>picked rest.
         repos td = map repo_summary picked \<and>
         mset picked + mset rest = mset (take 100 all_repos) \<and>
         length picked + length rest \<le> 100 \<and>
         length picked = min 10 (length all_repos) \<and>
         sorted_wrt (\<lambda>a b. r_stargazers_count b \<le> r_stargazers_count a) picked \<and>
         (\<forall>p\<in>set picked. \<forall>r\<in>set rest. r_stargazers_count r \<le> r_stargazers_count p) \<and>
         (\<forall>r. r \<notin> set (take 100 all_repos) \<longrightarrow> r \<notin> set picked)))"
proof (intro conjI allI impI)
  show "set (fst (buildTemplateData env username)) \<subseteq>
     {Fetch (userUrl username), Fetch (reposUrl username), Fetch (readmeMetaUrl username)}"
    using buildTemplateData_events [of env username] by auto
next
  show "suffix ''/repos?per_page=100&sort=stars'' (reposUrl username)"
    by (rule suffix_reposUrl)
next
  fix ud assume "snd (fetchGitHubData env (fetch_user env) (userUrl username)) = Inr ud"
  then show "count_list (fst (buildTemplateData env username)) (Fetch (reposUrl username)) = 1"
    by (rule count_repos_request_profile_ok)
next
  fix e assume "snd (fetchGitHubData env (fetch_user env) (userUrl username)) = Inl e"
  from build_events_profile_failed [OF this]
  show "count_list (fst (buildTemplateData env username)) (Fetch (reposUrl username)) = 0"
    using userUrl_neq_reposUrl [of username] by simp
next
  fix td all_repos
  assume a: "snd (buildTemplateData env username) = Inr td \<and>
      snd (fetchGitHubData env (fetch_repos env) (reposUrl username)) = Inr (take 100 all_repos)"
  then have b: "buildTemplateData env username = (fst (buildTemplateData env username), Inr td)"
    by (cases "buildTemplateData env username") simp
  from buildTemplateData_Inr [OF b] a
  obtain ud html where
    ud: "snd (fetchGitHubData env (fetch_user env) (userUrl username)) = Inr ud" and
    td: "td = template_record env ud (topRepos (take 100 all_repos)) html"
    by auto
  show "count_list (fst (buildTemplateData env username)) (Fetch (reposUrl username)) = 1"
    using ud by (rule count_repos_request_profile_ok)
  let ?sorted = "array_sort by_stars (take 100 all_repos)"
  have sz: "length (slice 0 10 ?sorted) + length (drop 10 ?sorted) = length (take 100 all_repos)"
    using picked_rest [of "take 100 all_repos"] by (metis size_mset size_union)
  show "\<exists>picked rest.
         repos td = map repo_summary picked \<and>
         mset picked + mset rest = mset (take 100 all_repos) \<and>
         length picked + length rest \<le> 100 \<and>
         length picked = min 10 (length all_repos) \<and>
         sorted_wrt (\<lambda>a b. r_stargazers_count b \<le> r_stargazers_count a) picked \<and>
         (\<forall>p\<in>set picked. \<forall>r\<in>set rest. r_stargazers_count r \<le> r_stargazers_count p) \<and>
         (\<forall>r. r \<notin> set (take 100 all_repos) \<longrightarrow> r \<notin> set picked)"
  proof (intro exI conjI)
    show "repos td = map repo_summary (slice 0 10 ?sorted)"
      by (simp add: td template_record_def topRepos_def)
    show "mset (slice 0 10 ?sorted) + mset (drop 10 ?sorted) = mset (take 100 all_repos)"
      by (rule picked_rest)
    show "length (slice 0 10 ?sorted) + length (drop 10 ?sorted) \<le> 100"
      using sz by simp
    show "length (slice 0 10 ?sorted) = min 10 (length all_repos)"
      by (rule length_picked)
    show "sorted_wrt (\<lambda>a b. r_stargazers_count b \<le> r_stargazers_count a) (slice 0 10 ?sorted)"
      by (rule sorted_picked)
    show "\<forall>p\<in>set (slice 0 10 ?sorted). \<forall>r\<in>set (drop 10 ?sorted).
            r_stargazers_count r \<le> r_stargazers_count p"
      by (rule ten_highest)
    show "\<forall>r. r \<notin> set (take 100 all_repos) \<longrightarrow> r \<notin> set (slice 0 10 ?sorted)"
      using set_picked [of "take 100 all_repos"] by blast
  qed
qed

theorem one_repositories_request_top_ten_of_its_page_witness:
  "snd (fetchGitHubData absent_user_env (fetch_user absent_user_env) (userUrl ''octocat'')) =
     Inl (Error ''User not found'') \<and>
   count_list (fst (buildTemplateData absent_user_env ''octocat'')) (Fetch (reposUrl ''octocat'')) = 0 \<and>
   count_list (fst (buildTemplateData paged_env ''octocat'')) (Fetch (reposUrl ''octocat'')) = 1 \<and>
   length many_repos = 101 \<and>
   drop 100 many_repos = [sample_repo ''late'' 99] \<and>
   sample_repo ''late'' 99 \<notin> set (take 100 many_repos) \<and>
   (\<exists>picked. repos (projr (snd (buildTemplateData paged_env ''octocat''))) = map repo_summary picked \<and>
      length picked = 10 \<and> sample_repo ''late'' 99 \<notin> set picked)"
proof -
  have b: "snd (buildTemplateData paged_env ''octocat'') =
      Inr (projr (snd (buildTemplateData paged_env ''octocat'')))"
    by (simp add: build_paged)
  have z: "count_list (fst (buildTemplateData absent_user_env ''octocat'')) (Fetch (reposUrl ''octocat'')) = 0"
    using one_repositories_request_top_ten_of_its_page [of absent_user_env "''octocat''"] user_absent
    by blast
  from one_repositories_request_top_ten_of_its_page [of paged_env "''octocat''"] b repos_paged
  have "count_list (fst (buildTemplateData paged_env ''octocat'')) (Fetch (reposUrl ''octocat'')) = 1 \<and>
      (\<exists>picked rest.
         repos (projr (snd (buildTemplateData paged_env ''octocat''))) = map repo_summary picked \<and>
         mset picked + mset rest = mset (take 100 many_repos) \<and>
         length picked + length rest \<le> 100 \<and>
         length picked = min 10 (length many_repos) \<and>
         sorted_wrt (\<lambda>a b. r_stargazers_count b \<le> r_stargazers_count a) picked \<and>
         (\<forall>p\<in>set picked. \<forall>r\<in>set rest. r_stargazers_count r \<le> r_stargazers_count p) \<and>
         (\<forall>r. r \<notin> set (take 100 many_repos) \<longrightarrow> r \<notin> set picked))"
    by blast
  then obtain picked where
    o: "count_list (fst (buildTemplateData paged_env ''octocat'')) (Fetch (reposUrl ''octocat'')) = 1" and
    p: "repos (projr (snd (buildTemplateData paged_env ''octocat''))) = map repo_summary picked" and
    l: "length picked = min 10 (length many_repos)" and
    n: "\<forall>r. r \<notin> set (take 100 many_repos) \<longrightarrow> r \<notin> set picked"
    by blast
  have l10: "length picked = 10"
    using l by (simp add: length_many_repos)
  have late: "sample_repo ''late'' 99 \<notin> set picked"
    using n late_not_in_first_page by blast
  from p l10 late have "\<exists>picked. repos (projr (snd (buildTemplateData paged_env ''octocat''))) = map repo_summary picked \<and>
      length picked = 10 \<and> sample_repo ''late'' 99 \<notin> set picked"
    by blast
  with user_absent z o length_many_repos drop_many_repos late_not_in_first_page show ?thesis
    by simp
qed

text \<open>
  The claim as it was stated, that the builder issues exactly one repositories request,
  fails for a user the upstream reports as absent: the profile request throws and the
  repositories request is never made.
\<close>

theorem no_repositories_request_for_absent_user:
  "fst (buildTemplateData absent_user_env ''octocat'') = [Fetch (userUrl ''octocat'')] \<and>
   count_list (fst (buildTemplateData absent_user_env ''octocat'')) (Fetch (reposUrl ''octocat'')) = 0 \<and>
   count_list (fst (buildTemplateData absent_user_env ''octocat'')) (Fetch (reposUrl ''octocat'')) \<noteq> 1"
  by (simp add: buildTemplateData_def fetchGitHubData_def absent_user_env_def sample_env_def ok_def
      userUrl_def reposUrl_def)

end
